theory Spec2Isabelle
  imports Main "HOL-Library.Word"
begin

section \<open>Data model of \<^verbatim>\<open>matrix_rain_gui.py\<close>\<close>

text \<open>
  The engine of \<^verbatim>\<open>MatrixRainGUI\<close>: the allocator \<^verbatim>\<open>_create_drops\<close> and the animator
  \<^verbatim>\<open>_update_rain\<close>, with \<^verbatim>\<open>_reset_rain\<close> and \<^verbatim>\<open>_init_canvas_dimensions\<close> around them.
  Python integers are \<open>int\<close>, the bytes of the file are \<open>8 word\<close>, Python exceptions
  are values of \<open>error\<close>. The Tk canvas is the list of requests sent to it together
  with the number of the next item it will create. The Tk timer (\<^verbatim>\<open>after\<close>,
  \<^verbatim>\<open>after_cancel\<close>) is the external scheduler that calls \<^verbatim>\<open>_update_rain\<close>; it is not
  part of the state.
\<close>

datatype error = ValueError | IndexError | TypeError | ZeroDivisionError

text \<open>The strings \<^verbatim>\<open>"ascii"\<close>, \<^verbatim>\<open>"hex"\<close> and \<^verbatim>\<open>"mixed"\<close> of the read-only combobox.\<close>

datatype mode = Ascii | Hex | Mixed

text \<open>The drop dictionary with its keys \<^verbatim>\<open>x, y, width, tail, index, mode\<close>.\<close>

record drop =
  drop_x :: int
  drop_y :: int
  drop_width :: int
  drop_tail :: int
  drop_index :: int
  drop_mode :: mode

datatype request =
    CreateText int int string nat
  | DeleteItem nat
  | DeleteAll

text \<open>
  The module \<^verbatim>\<open>random\<close>: an arbitrary stream of raw outcomes and the number of draws
  made so far. Each library call takes one raw outcome and maps it onto its range, so
  every outcome of every call is produced by some stream.
\<close>

record rng =
  raw :: "nat \<Rightarrow> nat"
  draws :: nat

record engine =
  file_data :: "8 word list option"
  file_size :: int
  min_tail :: int
  max_tail :: int
  drops :: "drop list"
  drop_items :: "nat list list"
  running :: bool
  mode_var :: mode
  char_width :: int
  char_height :: int
  cols :: int
  rows :: int
  winfo_width :: int
  winfo_height :: int
  canvas_next :: nat
  canvas_log :: "request list"
  rng_state :: rng

section \<open>Library functions the source calls\<close>

definition next_raw :: "rng \<Rightarrow> nat \<times> rng" where
  "next_raw g = (raw g (draws g), g\<lparr>draws := Suc (draws g)\<rparr>)"

text \<open>\<^verbatim>\<open>random.random() < 0.5\<close>: a coin.\<close>

definition random_lt_half :: "rng \<Rightarrow> bool \<times> rng" where
  "random_lt_half g = (case next_raw g of (r, g') \<Rightarrow> (even r, g'))"

text \<open>\<^verbatim>\<open>random.randint(a, b)\<close>: both ends included, \<^verbatim>\<open>ValueError\<close> on an empty range.\<close>

definition randint :: "int \<Rightarrow> int \<Rightarrow> rng \<Rightarrow> error + int \<times> rng" where
  "randint a b g =
     (if b < a then Inl ValueError
      else case next_raw g of (r, g') \<Rightarrow> Inr (a + int (r mod nat (b - a + 1)), g'))"

text \<open>\<^verbatim>\<open>random.randrange(n)\<close>: \<^verbatim>\<open>ValueError\<close> unless \<open>0 < n\<close>.\<close>

definition randrange :: "int \<Rightarrow> rng \<Rightarrow> error + int \<times> rng" where
  "randrange n g =
     (if n \<le> 0 then Inl ValueError
      else case next_raw g of (r, g') \<Rightarrow> Inr (int (r mod nat n), g'))"

text \<open>\<^verbatim>\<open>random.choice(seq)\<close>: \<^verbatim>\<open>IndexError\<close> on an empty sequence.\<close>

definition choice :: "'a list \<Rightarrow> rng \<Rightarrow> error + 'a \<times> rng" where
  "choice xs g =
     (if xs = [] then Inl IndexError
      else case next_raw g of (r, g') \<Rightarrow> Inr (xs ! (r mod length xs), g'))"

text \<open>Python indexing \<^verbatim>\<open>xs[k]\<close> and item assignment \<^verbatim>\<open>xs[k] = v\<close>: a negative index
  counts from the end, an index out of range raises.\<close>

definition py_index :: "'a list \<Rightarrow> int \<Rightarrow> error + 'a" where
  "py_index xs k =
     (let n = int (length xs); j = (if k < 0 then n + k else k)
      in if 0 \<le> j \<and> j < n then Inr (xs ! nat j) else Inl IndexError)"

definition py_assign :: "'a list \<Rightarrow> int \<Rightarrow> 'a \<Rightarrow> error + 'a list" where
  "py_assign xs k v =
     (let n = int (length xs); j = (if k < 0 then n + k else k)
      in if 0 \<le> j \<and> j < n then Inr (xs[nat j := v]) else Inl IndexError)"

text \<open>Python slicing \<^verbatim>\<open>xs[a:b]\<close>: both bounds are clamped to the list, never an error.\<close>

definition slice_bound :: "nat \<Rightarrow> int \<Rightarrow> nat" where
  "slice_bound n k = (if k < 0 then nat (max 0 (int n + k)) else min n (nat k))"

definition py_slice :: "'a list \<Rightarrow> int \<Rightarrow> int \<Rightarrow> 'a list" where
  "py_slice xs a b =
     (let lo = slice_bound (length xs) a; hi = slice_bound (length xs) b
      in take (hi - lo) (drop lo xs))"

text \<open>The constants of Python's module \<^verbatim>\<open>string\<close>.\<close>

definition digits :: string where
  "digits = ''0123456789''"

definition ascii_lowercase :: string where
  "ascii_lowercase = ''abcdefghijklmnopqrstuvwxyz''"

definition ascii_uppercase :: string where
  "ascii_uppercase = ''ABCDEFGHIJKLMNOPQRSTUVWXYZ''"

definition ascii_letters :: string where
  "ascii_letters = ascii_lowercase @ ascii_uppercase"

definition punctuation :: string where
  "punctuation =
     [CHR ''!'', CHR 0x22, CHR ''#'', CHR ''$'', CHR ''%'', CHR ''&'', CHR 0x27, CHR ''('',
      CHR '')'', CHR ''*'', CHR ''+'', CHR '','', CHR ''-'', CHR ''.'', CHR ''/'', CHR '':'',
      CHR '';'', CHR ''<'', CHR ''='', CHR ''>'', CHR ''?'', CHR ''@'', CHR ''['', CHR 0x5C,
      CHR '']'', CHR ''^'', CHR ''_'', CHR 0x60, CHR ''{'', CHR ''|'', CHR ''}'', CHR ''~'']"

definition whitespace :: string where
  "whitespace = [CHR '' '', CHR 0x09, CHR 0x0A, CHR 0x0D, CHR 0x0B, CHR 0x0C]"

definition printable :: string where
  "printable = digits @ ascii_letters @ punctuation @ whitespace"

text \<open>\<^verbatim>\<open>chr(byte)\<close> for a byte of the file: the code points 0 to 255, one \<open>char\<close> each.\<close>

definition chr :: "8 word \<Rightarrow> char" where
  "chr b = char_of (unat b)"

text \<open>The format \<^verbatim>\<open>f"{byte:02X}"\<close>: upper-case hexadecimal digits, padded with zeros on
  the left to two places.\<close>

definition hex_digit :: "nat \<Rightarrow> char" where
  "hex_digit n = ''0123456789ABCDEF'' ! n"

fun upper_hex :: "nat \<Rightarrow> string" where
  "upper_hex n =
     (if n < 16 then [hex_digit n] else upper_hex (n div 16) @ [hex_digit (n mod 16)])"

definition format_02X :: "8 word \<Rightarrow> string" where
  "format_02X b = (let s = upper_hex (unat b) in replicate (2 - length s) CHR ''0'' @ s)"

section \<open>Glyph text (lines 254 to 260)\<close>

definition ascii_text :: "8 word \<Rightarrow> string" where
  "ascii_text b =
     (if chr b \<in> set printable \<and> chr b \<notin> set [CHR 0x0B, CHR 0x0C] then [chr b] else ''.'')"

definition glyph_text :: "mode \<Rightarrow> 8 word \<Rightarrow> string" where
  "glyph_text m b = (if m = Ascii then ascii_text b else format_02X b)"

section \<open>The allocator \<^verbatim>\<open>_create_drops\<close>\<close>

text \<open>Lines 172 to 181: the width of a drop to be placed at column \<open>xpos\<close>.\<close>

definition pick_width :: "mode \<Rightarrow> int \<Rightarrow> int \<Rightarrow> rng \<Rightarrow> error + int \<times> rng" where
  "pick_width m xpos ncols g =
     (if m = Hex then Inr (2, g)
      else if m = Ascii then Inr (1, g)
      else case choice [True, False] g of
             Inl e \<Rightarrow> Inl e
           | Inr (c, g') \<Rightarrow> Inr (if c \<and> xpos < ncols - 1 then 2 else 1, g'))"

text \<open>Lines 191 and 192: \<^verbatim>\<open>for i in range(width): occupied[x + i] = True\<close>.\<close>

fun mark_occupied :: "bool list \<Rightarrow> int \<Rightarrow> nat list \<Rightarrow> error + bool list" where
  "mark_occupied occupied xpos [] = Inr occupied"
| "mark_occupied occupied xpos (i # rest) =
     (case py_assign occupied (xpos + int i) True of
        Inl e \<Rightarrow> Inl e
      | Inr occupied' \<Rightarrow> mark_occupied occupied' xpos rest)"

text \<open>Lines 194 to 204: the new drop dictionary, its values drawn in the order written.\<close>

definition new_drop :: "engine \<Rightarrow> mode \<Rightarrow> int \<Rightarrow> int \<Rightarrow> rng \<Rightarrow> error + drop \<times> rng" where
  "new_drop st m xpos w g =
     (case randint 0 (rows st) g of
        Inl e \<Rightarrow> Inl e
      | Inr (r, g1) \<Rightarrow>
     (case randint (min_tail st) (max_tail st) g1 of
        Inl e \<Rightarrow> Inl e
      | Inr (t, g2) \<Rightarrow>
     (case randrange (file_size st) g2 of
        Inl e \<Rightarrow> Inl e
      | Inr (ix, g3) \<Rightarrow>
     (case (if m = Mixed then choice [Ascii, Hex] g3 else Inr (m, g3)) of
        Inl e \<Rightarrow> Inl e
      | Inr (dm, g4) \<Rightarrow>
          Inr (\<lparr>drop_x = xpos, drop_y = - r, drop_width = w, drop_tail = t,
                drop_index = ix, drop_mode = dm\<rparr>, g4)))))"

text \<open>Lines 168 to 210: the sweep over the columns. \<open>ds\<close> and \<open>its\<close> are
  \<^verbatim>\<open>self.drops\<close> and \<^verbatim>\<open>self.drop_items\<close>.\<close>

function create_loop ::
  "engine \<Rightarrow> mode \<Rightarrow> bool list \<Rightarrow> int \<Rightarrow> drop list \<Rightarrow> nat list list \<Rightarrow> rng
     \<Rightarrow> error + drop list \<times> nat list list \<times> rng" where
  "create_loop st m occupied xpos ds its g =
     (if xpos < cols st then
        (case random_lt_half g of (place, g1) \<Rightarrow>
           if place then
             (case pick_width m xpos (cols st) g1 of
                Inl e \<Rightarrow> Inl e
              | Inr (w, g2) \<Rightarrow>
                  if w = 2 \<and> cols st - 1 \<le> xpos then
                    create_loop st m occupied (xpos + 1) ds its g2
                  else if True \<in> set (py_slice occupied xpos (xpos + w)) then
                    create_loop st m occupied (xpos + 1) ds its g2
                  else
                    (case mark_occupied occupied xpos [0..<nat w] of
                       Inl e \<Rightarrow> Inl e
                     | Inr occupied' \<Rightarrow>
                         (case new_drop st m xpos w g2 of
                            Inl e \<Rightarrow> Inl e
                          | Inr (d, g3) \<Rightarrow>
                              create_loop st m occupied' (xpos + w) (ds @ [d]) (its @ [[]]) g3)))
           else create_loop st m occupied (xpos + 1) ds its g1)
      else Inr (ds, its, g))"
  by pat_completeness auto
termination
proof (relation "measure (\<lambda>(st, m, occupied, xpos, ds, its, g). nat (cols st - xpos))")
qed (auto simp: pick_width_def choice_def split: if_splits prod.splits)

declare create_loop.simps [simp del]

definition create_drops :: "engine \<Rightarrow> error + engine" where
  "create_drops st =
     (if cols st < 1 \<or> rows st < 1 then Inr st
      else case create_loop st (mode_var st) (replicate (nat (cols st)) False) 0 [] []
                  (rng_state st) of
             Inl e \<Rightarrow> Inl e
           | Inr (ds, its, g) \<Rightarrow> Inr (st\<lparr>drops := ds, drop_items := its, rng_state := g\<rparr>))"

section \<open>The animator \<^verbatim>\<open>_update_rain\<close>\<close>

text \<open>Line 219: the test that sends a drop to the recycling branch.\<close>

definition recycle_due :: "engine \<Rightarrow> drop \<Rightarrow> bool" where
  "recycle_due st d = (rows st \<le> drop_y d - drop_tail d)"

text \<open>Lines 221 to 230: the new width, resolved from the global mode.\<close>

definition recycle_width :: "engine \<Rightarrow> drop \<Rightarrow> rng \<Rightarrow> error + int \<times> rng" where
  "recycle_width st d g =
     (if mode_var st = Mixed then
        (case choice [1, 2] g of
           Inl e \<Rightarrow> Inl e
         | Inr (w, g') \<Rightarrow> Inr (if w = 2 \<and> cols st < 2 then 1 else w, g'))
      else if mode_var st = Ascii then Inr (1, g)
      else if mode_var st = Hex then Inr (2, g)
      else Inr (drop_width d, g))"

text \<open>Lines 233 and 234: the new column.\<close>

definition recycle_column :: "engine \<Rightarrow> int \<Rightarrow> rng \<Rightarrow> error + int \<times> rng" where
  "recycle_column st w g =
     (let max_x = max 0 (cols st - w)
      in if 0 < max_x then randint 0 max_x g else Inr (0, g))"

text \<open>Lines 220 to 248: the recycling branch for the drop at position \<open>i\<close>.\<close>

definition recycle_drop :: "nat \<Rightarrow> engine \<Rightarrow> error + engine" where
  "recycle_drop i st =
     (case recycle_width st (drops st ! i) (rng_state st) of
        Inl e \<Rightarrow> Inl e
      | Inr (w, g1) \<Rightarrow>
     (case recycle_column st w g1 of
        Inl e \<Rightarrow> Inl e
      | Inr (nx, g2) \<Rightarrow>
     (case randint 0 (rows st) g2 of
        Inl e \<Rightarrow> Inl e
      | Inr (r, g3) \<Rightarrow>
     (case randint (min_tail st) (max_tail st) g3 of
        Inl e \<Rightarrow> Inl e
      | Inr (t, g4) \<Rightarrow>
     (case randrange (file_size st) g4 of
        Inl e \<Rightarrow> Inl e
      | Inr (ix, g5) \<Rightarrow>
     (case (if mode_var st = Mixed then choice [Ascii, Hex] g5 else Inr (mode_var st, g5)) of
        Inl e \<Rightarrow> Inl e
      | Inr (dm, g6) \<Rightarrow>
          if i < length (drop_items st) then
            Inr (st\<lparr>drops := (drops st)[i := \<lparr>drop_x = nx, drop_y = - r, drop_width = w,
                                               drop_tail = t, drop_index = ix, drop_mode = dm\<rparr>],
                    drop_items := (drop_items st)[i := []],
                    canvas_log := canvas_log st @ map DeleteItem (drop_items st ! i),
                    rng_state := g6\<rparr>)
          else Inl IndexError))))))"

text \<open>Lines 253 to 276: draw the head of drop \<open>i\<close>, which has already moved, and step
  its file index.\<close>

definition draw_head :: "nat \<Rightarrow> engine \<Rightarrow> error + engine" where
  "draw_head i st =
     (let d = drops st ! i in
      case file_data st of
        None \<Rightarrow> Inl TypeError
      | Some data \<Rightarrow>
          (case py_index data (drop_index d) of
             Inl e \<Rightarrow> Inl e
           | Inr byte \<Rightarrow>
               if i < length (drop_items st) then
                 if file_size st = 0 then Inl ZeroDivisionError
                 else
                   Inr (st\<lparr>canvas_next := Suc (canvas_next st),
                           canvas_log := canvas_log st @
                             [CreateText (drop_x d * char_width st) (drop_y d * char_height st)
                                (glyph_text (drop_mode d) byte) (canvas_next st)],
                           drop_items := (drop_items st)[i := drop_items st ! i @ [canvas_next st]],
                           drops := (drops st)[i := d\<lparr>drop_index :=
                                                      (drop_index d + 1) mod file_size st\<rparr>]\<rparr>)
               else Inl IndexError))"

text \<open>Lines 280 to 282: \<^verbatim>\<open>pop(0)\<close> while the list is longer than the tail; popping
  from an empty list raises.\<close>

fun trim_tail :: "int \<Rightarrow> nat list \<Rightarrow> request list \<Rightarrow> error + nat list \<times> request list" where
  "trim_tail t [] log = (if t < 0 then Inl IndexError else Inr ([], log))"
| "trim_tail t (old_item # rest) log =
     (if t < int (length (old_item # rest)) then trim_tail t rest (log @ [DeleteItem old_item])
      else Inr (old_item # rest, log))"

definition trim_items :: "nat \<Rightarrow> engine \<Rightarrow> error + engine" where
  "trim_items i st =
     (if i < length (drop_items st) then
        (case trim_tail (drop_tail (drops st ! i)) (drop_items st ! i) (canvas_log st) of
           Inl e \<Rightarrow> Inl e
         | Inr (kept, log) \<Rightarrow>
             Inr (st\<lparr>drop_items := (drop_items st)[i := kept], canvas_log := log\<rparr>))
      else Inl IndexError)"

text \<open>Lines 249 to 282: the branch of a drop that is not recycled.\<close>

definition advance_drop :: "nat \<Rightarrow> engine \<Rightarrow> error + engine" where
  "advance_drop i st =
     (let d = (drops st ! i)\<lparr>drop_y := drop_y (drops st ! i) + 1\<rparr>;
          st1 = st\<lparr>drops := (drops st)[i := d]\<rparr>
      in case (if 0 \<le> drop_y d \<and> drop_y d < rows st then draw_head i st1 else Inr st1) of
           Inl e \<Rightarrow> Inl e
         | Inr st2 \<Rightarrow> trim_items i st2)"

text \<open>The body of the loop of line 217 for the drop at position \<open>i\<close>.\<close>

definition update_drop :: "nat \<Rightarrow> engine \<Rightarrow> error + engine" where
  "update_drop i st =
     (if recycle_due st (drops st ! i) then recycle_drop i st else advance_drop i st)"

fun update_loop :: "nat list \<Rightarrow> engine \<Rightarrow> error + engine" where
  "update_loop [] st = Inr st"
| "update_loop (i # rest) st =
     (case update_drop i st of Inl e \<Rightarrow> Inl e | Inr st' \<Rightarrow> update_loop rest st')"

definition update_rain :: "engine \<Rightarrow> error + engine" where
  "update_rain st =
     (if \<not> running st then Inr st else update_loop [0..<length (drops st)] st)"

section \<open>\<^verbatim>\<open>_init_canvas_dimensions\<close> and \<^verbatim>\<open>_reset_rain\<close>\<close>

definition init_canvas_dimensions :: "engine \<Rightarrow> error + engine" where
  "init_canvas_dimensions st =
     (let width_px = max 1 (winfo_width st); height_px = max 1 (winfo_height st)
      in if char_width st = 0 \<or> char_height st = 0 then Inl ZeroDivisionError
         else
           (let st1 = st\<lparr>cols := width_px div char_width st,
                         rows := height_px div char_height st\<rparr>
            in if file_data st1 \<noteq> None then create_drops st1 else Inr st1))"

definition reset_rain :: "engine \<Rightarrow> error + engine" where
  "reset_rain st =
     (let st1 = st\<lparr>canvas_log := canvas_log st @ [DeleteAll], drops := [], drop_items := []\<rparr>
      in if file_data st1 = None then Inr st1
         else case init_canvas_dimensions st1 of
                Inl e \<Rightarrow> Inl e
              | Inr st2 \<Rightarrow>
                  (case create_drops st2 of
                     Inl e \<Rightarrow> Inl e
                   | Inr st3 \<Rightarrow> update_rain (st3\<lparr>running := True\<rparr>)))"

text \<open>\<open>n\<close> successive frames.\<close>

fun run_ticks :: "nat \<Rightarrow> engine \<Rightarrow> error + engine" where
  "run_ticks 0 st = Inr st"
| "run_ticks (Suc n) st =
     (case update_rain st of Inl e \<Rightarrow> Inl e | Inr st' \<Rightarrow> run_ticks n st')"

text \<open>A small engine for examples: the three bytes \<^verbatim>\<open>ABC\<close>, one drop at the top.\<close>

definition demo_engine :: engine where
  "demo_engine =
     \<lparr>file_data = Some [0x41, 0x42, 0x43], file_size = 3, min_tail = 5, max_tail = 15,
      drops = [\<lparr>drop_x = 0, drop_y = 0, drop_width = 1, drop_tail = 5, drop_index = 0,
                drop_mode = Ascii\<rparr>],
      drop_items = [[]], running = True, mode_var = Ascii, char_width = 11, char_height = 22,
      cols = 4, rows = 10, winfo_width = 44, winfo_height = 220, canvas_next = 1,
      canvas_log = [], rng_state = \<lparr>raw = (\<lambda>n. 0), draws = 0\<rparr>\<rparr>"

section \<open>Glyph text\<close>

lemma printable_codes:
  "map of_char printable =
     ([48..<58] @ [97..<123] @ [65..<91] @ [33..<48] @ [58..<65] @ [91..<97] @ [123..<127] @
      [32, 9, 10, 13, 11, 12] :: nat list)"
  by (simp add: printable_def digits_def ascii_letters_def ascii_lowercase_def
      ascii_uppercase_def punctuation_def whitespace_def upt_rec)

lemma unat_byte_less: "unat (b :: 8 word) < 256"
  using unsigned_less [of b] by simp

lemma of_char_chr: "of_char (chr b) = unat b"
  using unat_byte_less [of b] by (simp add: chr_def)

lemma chr_in_set_iff: "chr b \<in> set cs \<longleftrightarrow> unat b \<in> set (map of_char cs)"
proof -
  have "chr b \<in> set cs \<longleftrightarrow> (of_char (chr b) :: nat) \<in> of_char ` set cs"
    by (auto simp: inj_image_mem_iff [OF inj_of_char])
  then show ?thesis by (simp add: of_char_chr)
qed

lemma chr_printable_iff:
  "chr b \<in> set printable \<longleftrightarrow>
     (32 \<le> unat b \<and> unat b \<le> 126) \<or> (9 \<le> unat b \<and> unat b \<le> 13)"
  unfolding chr_in_set_iff printable_codes
  by (simp only: set_append set_upt list.set Un_iff atLeastLessThan_iff insert_iff empty_iff)
    arith

lemma chr_vt_ff_iff:
  "chr b \<in> set [CHR 0x0B, CHR 0x0C] \<longleftrightarrow> unat b = 11 \<or> unat b = 12"
  unfolding chr_in_set_iff by auto

lemma ascii_text_char:
  "ascii_text b =
     (if (32 \<le> unat b \<and> unat b \<le> 126) \<or> unat b = 9 \<or> unat b = 10 \<or> unat b = 13
      then [chr b] else ''.'')"
  unfolding ascii_text_def chr_printable_iff chr_vt_ff_iff by auto

lemma upper_hex_byte:
  "n < 256 \<Longrightarrow>
     upper_hex n =
       (if n < 16 then [hex_digit n] else [hex_digit (n div 16), hex_digit (n mod 16)])"
  by (subst upper_hex.simps) (simp add: less_mult_imp_div_less)

lemma format_02X_byte:
  "format_02X b = [hex_digit (unat b div 16), hex_digit (unat b mod 16)]"
  using unat_byte_less [of b]
  by (auto simp: format_02X_def upper_hex_byte Let_def hex_digit_def)

lemma glyph_text_A: "glyph_text Ascii 0x41 = ''A''"
  by code_simp

lemma draw_head_request:
  assumes "draw_head i st = Inr st'"
  shows "\<exists>data b. file_data st = Some data \<and>
           py_index data (drop_index (drops st ! i)) = Inr b \<and>
           canvas_log st' = canvas_log st @
             [CreateText (drop_x (drops st ! i) * char_width st)
                (drop_y (drops st ! i) * char_height st)
                (glyph_text (drop_mode (drops st ! i)) b) (canvas_next st)]"
  using assms
  by (auto simp: draw_head_def Let_def split: option.splits sum.splits if_splits)

text \<open>
  C3. The text of the glyph that \<^verbatim>\<open>_update_rain\<close> draws for the byte \<open>b\<close> under the drop's
  cursor. A drawing step sends exactly one \<^verbatim>\<open>create_text\<close> request, whose text is
  \<open>glyph_text\<close> of the drop's mode and that byte. In Ascii mode the text is the
  character \<open>chr b\<close> when it is in \<^verbatim>\<open>string.printable\<close> and is neither vertical tab nor
  form feed, that is when \<open>b\<close> is 32 to 126, tab, newline or carriage return, and a
  full stop otherwise; byte 0x00 gives a full stop and byte 0x41 gives A. In Hex mode the
  text is the two upper-case hexadecimal digits of \<open>b\<close>; 0x0A gives 0A and 0xFF gives FF.
\<close>

theorem glyph_text_of_byte:
  "(draw_head i st = Inr st' \<longrightarrow>
      (\<exists>data c. file_data st = Some data \<and>
         py_index data (drop_index (drops st ! i)) = Inr c \<and>
         canvas_log st' = canvas_log st @
           [CreateText (drop_x (drops st ! i) * char_width st)
              (drop_y (drops st ! i) * char_height st)
              (glyph_text (drop_mode (drops st ! i)) c) (canvas_next st)])) \<and>
   glyph_text Ascii b =
     (if chr b \<in> set printable \<and> chr b \<noteq> CHR 0x0B \<and> chr b \<noteq> CHR 0x0C
      then [chr b] else ''.'') \<and>
   glyph_text Ascii b =
     (if (32 \<le> unat b \<and> unat b \<le> 126) \<or> unat b = 9 \<or> unat b = 10 \<or> unat b = 13
      then [char_of (unat b)] else ''.'') \<and>
   glyph_text Ascii 0x00 = ''.'' \<and>
   glyph_text Ascii 0x41 = ''A'' \<and>
   glyph_text Hex b = [''0123456789ABCDEF'' ! (unat b div 16), ''0123456789ABCDEF'' ! (unat b mod 16)] \<and>
   glyph_text Hex 0x0A = ''0A'' \<and>
   glyph_text Hex 0xFF = ''FF''"
proof -
  have drawn: "draw_head i st = Inr st' \<longrightarrow>
      (\<exists>data c. file_data st = Some data \<and>
         py_index data (drop_index (drops st ! i)) = Inr c \<and>
         canvas_log st' = canvas_log st @
           [CreateText (drop_x (drops st ! i) * char_width st)
              (drop_y (drops st ! i) * char_height st)
              (glyph_text (drop_mode (drops st ! i)) c) (canvas_next st)])"
    using draw_head_request by blast
  have by_def: "glyph_text Ascii b =
     (if chr b \<in> set printable \<and> chr b \<noteq> CHR 0x0B \<and> chr b \<noteq> CHR 0x0C
      then [chr b] else ''.'')"
    by (simp add: glyph_text_def ascii_text_def)
  have by_code: "glyph_text Ascii b =
     (if (32 \<le> unat b \<and> unat b \<le> 126) \<or> unat b = 9 \<or> unat b = 10 \<or> unat b = 13
      then [char_of (unat b)] else ''.'')"
    by (simp add: glyph_text_def ascii_text_char chr_def)
  have nul: "glyph_text Ascii 0x00 = ''.''"
    by (simp add: glyph_text_def ascii_text_char)
  have letter: "glyph_text Ascii 0x41 = ''A''"
    by code_simp
  have hex: "glyph_text Hex b =
      [''0123456789ABCDEF'' ! (unat b div 16), ''0123456789ABCDEF'' ! (unat b mod 16)]"
    by (simp add: glyph_text_def format_02X_byte hex_digit_def)
  have hex_0A: "glyph_text Hex 0x0A = ''0A''"
    by (simp add: glyph_text_def format_02X_byte hex_digit_def)
  have hex_FF: "glyph_text Hex 0xFF = ''FF''"
    by (simp add: glyph_text_def format_02X_byte hex_digit_def)
  from drawn by_def by_code nul letter hex hex_0A hex_FF show ?thesis
    by (intro conjI)
qed

theorem glyph_text_of_byte_witness:
  "draw_head 0 demo_engine =
     Inr (demo_engine\<lparr>canvas_next := 2,
            canvas_log := [CreateText 0 0 ''A'' 1],
            drop_items := [[1]],
            drops := [\<lparr>drop_x = 0, drop_y = 0, drop_width = 1, drop_tail = 5, drop_index = 1,
                       drop_mode = Ascii\<rparr>]\<rparr>) \<and>
   (\<exists>data c. file_data demo_engine = Some data \<and>
      py_index data (drop_index (drops demo_engine ! 0)) = Inr c \<and>
      glyph_text (drop_mode (drops demo_engine ! 0)) c = ''A'')"
proof -
  have run: "draw_head 0 demo_engine =
     Inr (demo_engine\<lparr>canvas_next := 2,
            canvas_log := [CreateText 0 0 ''A'' 1],
            drop_items := [[1]],
            drops := [\<lparr>drop_x = 0, drop_y = 0, drop_width = 1, drop_tail = 5, drop_index = 1,
                       drop_mode = Ascii\<rparr>]\<rparr>)"
    by (simp add: draw_head_def demo_engine_def py_index_def glyph_text_A)
  from glyph_text_of_byte [of 0 demo_engine _ "0x41"] run
  have "\<exists>data c. file_data demo_engine = Some data \<and>
      py_index data (drop_index (drops demo_engine ! 0)) = Inr c \<and>
      canvas_log (demo_engine\<lparr>canvas_next := 2,
            canvas_log := [CreateText 0 0 ''A'' 1],
            drop_items := [[1]],
            drops := [\<lparr>drop_x = 0, drop_y = 0, drop_width = 1, drop_tail = 5, drop_index = 1,
                       drop_mode = Ascii\<rparr>]\<rparr>) = canvas_log demo_engine @
           [CreateText (drop_x (drops demo_engine ! 0) * char_width demo_engine)
              (drop_y (drops demo_engine ! 0) * char_height demo_engine)
              (glyph_text (drop_mode (drops demo_engine ! 0)) c) (canvas_next demo_engine)]"
    by blast
  then have "\<exists>data c. file_data demo_engine = Some data \<and>
      py_index data (drop_index (drops demo_engine ! 0)) = Inr c \<and>
      glyph_text (drop_mode (drops demo_engine ! 0)) c = ''A''"
    by (auto simp: demo_engine_def)
  with run show ?thesis by blast
qed

text \<open>
  C10. The Ascii test is membership in \<^verbatim>\<open>string.printable\<close> without vertical tab and form
  feed, so the bytes 0x20 (space), 0x09 (tab), 0x0A (newline) and 0x0D (carriage return)
  are drawn as themselves, and every byte from 0x80 to 0xFF is drawn as a full stop.
\<close>

theorem ascii_whitespace_and_high_bytes:
  "ascii_text b =
     (if chr b \<in> set printable - {CHR 0x0B, CHR 0x0C} then [chr b] else ''.'') \<and>
   glyph_text Ascii 0x20 = [CHR 0x20] \<and>
   glyph_text Ascii 0x09 = [CHR 0x09] \<and>
   glyph_text Ascii 0x0A = [CHR 0x0A] \<and>
   glyph_text Ascii 0x0D = [CHR 0x0D] \<and>
   (0x80 \<le> unat b \<longrightarrow> glyph_text Ascii b = ''.'')"
proof -
  have by_def: "ascii_text b =
     (if chr b \<in> set printable - {CHR 0x0B, CHR 0x0C} then [chr b] else ''.'')"
    by (simp add: ascii_text_def)
  have space: "glyph_text Ascii 0x20 = [CHR 0x20]"
    by code_simp
  have tab: "glyph_text Ascii 0x09 = [CHR 0x09]"
    by code_simp
  have newline: "glyph_text Ascii 0x0A = [CHR 0x0A]"
    by code_simp
  have cr: "glyph_text Ascii 0x0D = [CHR 0x0D]"
    by code_simp
  have high: "0x80 \<le> unat b \<longrightarrow> glyph_text Ascii b = ''.''"
    by (simp add: glyph_text_def ascii_text_char)
  from by_def space tab newline cr high show ?thesis
    by (intro conjI)
qed

theorem ascii_whitespace_and_high_bytes_witness:
  "0x80 \<le> unat (0xE9 :: 8 word) \<and> glyph_text Ascii 0xE9 = ''.''"
  using ascii_whitespace_and_high_bytes [of "0xE9"] by simp

end
